theory Spec2Isabelle
  imports Main "HOL-Library.Word" "HOL-Library.Sublist"
begin

unbundle bit_operations_syntax

section \<open>The JIIOV fingerprint platform driver (jiiov\_platform.c)\<close>

text \<open>
  The driver is modelled as state-passing functions over a record of its global
  variables. Every call the driver makes into the kernel is appended to a trace of
  events; what such a call returns is read from an environment, a record of
  functions of the time of the call (the length of the trace so far), so that two
  calls of the same kernel function may return different results. Logging
  (\<open>pr_info\<close>, \<open>dev_err\<close>) has no effect on the driver's state and is left out.

  A pointer that the code itself tests against \<open>NULL\<close> somewhere is an
  \<open>option\<close>. The device context that \<open>filp->private_data\<close>, \<open>dev_get_drvdata\<close> and
  \<open>container_of(nb, ...)\<close> yield is one object, the field \<open>g_anc_data\<close> of the state;
  the value of the global pointer of that name, which the touch handler dereferences
  and which is null before any probe and dangling after a failed one, is the field
  \<open>g_anc_data_ptr\<close>. A dereference of a null or freed pointer is a \<open>fault\<close>, the
  \<open>Inl\<close> result of the function that makes it; \<open>netlink_unicast\<close> dereferences the
  socket it is given.
  The code is modelled with \<open>ANC_USE_NETLINK\<close> defined. Modelled are the
  notification channel (send, init, exit), the two event handlers, the attribute
  writes, the command dispatch, the regulator, pin and reset sequences and module
  load and unload; the probe and remove callbacks and the receive callback of the
  channel are not.
\<close>

subsection \<open>Constants\<close>

definition EINVAL :: int where "EINVAL = 22"
definition ENOMEM :: int where "ENOMEM = 12"
definition ENOTTY :: int where "ENOTTY = 25"
definition NOTIFY_OK :: int where "NOTIFY_OK = 1"

definition NETLINK_ANC :: nat where "NETLINK_ANC = 30"
definition USER_PORT :: nat where "USER_PORT = 100"
definition ANC_WAKELOCK_HOLD_TIME :: nat where "ANC_WAKELOCK_HOLD_TIME = 400"
definition ANC_VREG_LDO_NAME :: string where "ANC_VREG_LDO_NAME = ''ldo''"

definition pctl_names :: "string list" where
  "pctl_names = [''anc_reset_reset'', ''anc_reset_active'']"

record vreg_config =
  name :: string
  vmin :: nat
  vmax :: nat
  ua_load :: int

definition vreg_conf :: "vreg_config list" where
  "vreg_conf = [\<lparr>name = ANC_VREG_LDO_NAME, vmin = 3300000, vmax = 3300000, ua_load = 150000\<rparr>]"

text \<open>
  The enumeration \<open>ANC_NETLINK_EVENT_TYPE\<close> and the other constants of
  \<open>jiiov_platform.h\<close>, \<open>oplus_fp_common.h\<close> and \<open>msm_drm_notify.h\<close> are declared in
  headers that are not part of the sources at hand: their values are parameters,
  collected in the record \<open>hdr\<close>, as is the conversion \<open>msecs_to_jiffies\<close>, which
  depends on the tick rate the kernel is configured with.
\<close>

datatype ANC_NETLINK_EVENT_TYPE =
    ANC_NETLINK_EVENT_TEST
  | ANC_NETLINK_EVENT_IRQ
  | ANC_NETLINK_EVENT_SCR_OFF
  | ANC_NETLINK_EVENT_SCR_ON
  | ANC_NETLINK_EVENT_TOUCH_DOWN
  | ANC_NETLINK_EVENT_TOUCH_UP
  | ANC_NETLINK_EVENT_UI_READY
  | ANC_NETLINK_EVENT_EXIT
  | ANC_NETLINK_EVENT_INVALID

record hdr =
  event_val :: "ANC_NETLINK_EVENT_TYPE \<Rightarrow> int"
  sizeof_event_type :: nat
  msecs_to_jiffies :: "nat \<Rightarrow> nat"
  ANC_UI_READY :: int
  ANC_UI_DISAPPREAR :: int
  MSM_DRM_ONSCREENFINGERPRINT_EVENT :: "64 word"
  MSM_DRM_EARLY_EVENT_BLANK :: "64 word"
  MSM_DRM_BLANK_POWERDOWN :: "32 word"
  MSM_DRM_BLANK_UNBLANK :: "32 word"
  ANC_IOC_MAGIC :: "32 word"
  ANC_IOC_RESET :: "32 word"
  ANC_IOC_ENABLE_POWER :: "32 word"
  ANC_IOC_DISABLE_POWER :: "32 word"
  ANC_IOC_CLEAR_FLAG :: "32 word"
  FP_JIIOV_0302 :: int
  FP_JIIOV_0301 :: int

subsection \<open>Kernel calls, their results, and the driver's state\<close>

datatype event =
    MutexLock
  | MutexUnlock
  | PinctrlSelectState nat nat
  | Mdelay nat
  | GpioSetValue int int
  | RegulatorGet string
  | RegulatorCountVoltages nat
  | RegulatorSetVoltage nat nat nat
  | RegulatorSetLoad nat int
  | RegulatorEnable nat
  | RegulatorIsEnabled nat
  | RegulatorDisable nat
  | RegulatorPut nat
  | PmWakeupEvent nat nat
  | NlmsgNew nat
  | NlmsgPut nat
  | NlmsgFree
  | NetlinkUnicast nat "8 word list" nat
  | NetlinkKernelCreate nat
  | NetlinkKernelRelease nat
  | PlatformDriverRegister
  | PlatformDriverUnregister
  | OpticalfpIrqHandlerRegister

record env =
  nlmsg_new_ok :: "nat \<Rightarrow> bool"
  nlmsg_put_ok :: "nat \<Rightarrow> bool"
  netlink_unicast_rc :: "nat \<Rightarrow> int"
  netlink_kernel_create_res :: "nat \<Rightarrow> nat option"
  pinctrl_select_state_rc :: "nat \<Rightarrow> int"
  regulator_get_res :: "nat \<Rightarrow> int + nat"
  regulator_count_voltages_res :: "nat \<Rightarrow> int"
  regulator_set_voltage_rc :: "nat \<Rightarrow> int"
  regulator_set_load_rc :: "nat \<Rightarrow> int"
  regulator_enable_rc :: "nat \<Rightarrow> int"
  regulator_is_enabled_res :: "nat \<Rightarrow> int"
  platform_driver_register_rc :: "nat \<Rightarrow> int"
  get_fpsensor_type_res :: "nat \<Rightarrow> int"

record anc_data =
  fingerprint_pinctrl :: nat
  pinctrl_state :: "nat list"
  vreg :: "nat option list"
  fp_wakelock :: nat
  pwr_gpio :: int
  rst_gpio :: int
  fb_black :: "8 word"

datatype ctx_ptr = PtrNull | PtrFreed | PtrDevData

datatype fault = NullDeref | UseAfterFree

record kstate =
  g_anc_data :: anc_data
  g_anc_data_ptr :: ctx_ptr
  gp_netlink_sock :: "nat option"
  lasttouchmode :: "32 word"
  anc_gpio_pwr_flag :: int
  trace :: "event list"

definition now :: "kstate \<Rightarrow> nat" where
  "now s = length (trace s)"

definition emit :: "event \<Rightarrow> kstate \<Rightarrow> kstate" where
  "emit e s = s\<lparr>trace := trace s @ [e]\<rparr>"

subsection \<open>C strings\<close>

text \<open>
  A C string is the list of the characters before its terminating NUL; reading at
  the end of the list reads the NUL. \<open>strncmp\<close> follows \<open>lib/string.c\<close>.
\<close>

definition cchar :: "string \<Rightarrow> nat" where
  "cchar s = (case s of [] \<Rightarrow> 0 | c # _ \<Rightarrow> of_char c)"

definition strlen :: "string \<Rightarrow> nat" where
  "strlen s = length (takeWhile (\<lambda>c. of_char c \<noteq> (0::nat)) s)"

fun strncmp :: "string \<Rightarrow> string \<Rightarrow> nat \<Rightarrow> int" where
  "strncmp cs ct 0 = 0"
| "strncmp cs ct (Suc n) =
     (if cchar cs \<noteq> cchar ct then (if cchar cs < cchar ct then - 1 else 1)
      else if cchar cs = 0 then 0
      else strncmp (tl cs) (tl ct) n)"

definition nul_free :: "string \<Rightarrow> bool" where
  "nul_free s = list_all (\<lambda>c. of_char c \<noteq> (0::nat)) s"

subsection \<open>Pin control and reset\<close>

text \<open>\<open>select_pin_ctl\<close> (lines 341--366): the loop over \<open>pctl_names\<close>, then the function.\<close>

fun select_pin_ctl_loop :: "env \<Rightarrow> string list \<Rightarrow> nat \<Rightarrow> string \<Rightarrow> kstate \<Rightarrow> int \<times> kstate" where
  "select_pin_ctl_loop ev [] i nm s = (- EINVAL, s)"
| "select_pin_ctl_loop ev (n # ns) i nm s =
     (if strncmp n nm (strlen n) = 0
      then (pinctrl_select_state_rc ev (now s),
            emit (PinctrlSelectState (fingerprint_pinctrl (g_anc_data s))
                                     (pinctrl_state (g_anc_data s) ! i)) s)
      else select_pin_ctl_loop ev ns (Suc i) nm s)"

definition select_pin_ctl :: "env \<Rightarrow> string \<Rightarrow> kstate \<Rightarrow> int \<times> kstate" where
  "select_pin_ctl ev nm s = select_pin_ctl_loop ev pctl_names 0 nm s"

text \<open>The attribute write \<open>pinctl_set\<close> (lines 368--378) and \<open>anc_reset\<close> (lines 381--394).\<close>

definition pinctl_set :: "env \<Rightarrow> string \<Rightarrow> nat \<Rightarrow> kstate \<Rightarrow> int \<times> kstate" where
  "pinctl_set ev buf count s =
     (let s1 = emit MutexLock s;
          (rc, s2) = select_pin_ctl ev buf s1;
          s3 = emit MutexUnlock s2
      in (if rc \<noteq> 0 then rc else int count, s3))"

definition anc_reset :: "env \<Rightarrow> kstate \<Rightarrow> int \<times> kstate" where
  "anc_reset ev s =
     (let s1 = emit MutexLock s;
          (rc1, s2) = select_pin_ctl ev ''anc_reset_reset'' s1;
          s3 = emit (Mdelay 10) s2;
          (rc2, s4) = select_pin_ctl ev ''anc_reset_active'' s3;
          s5 = emit (Mdelay 10) s4;
          s6 = emit MutexUnlock s5
      in (rc1 OR rc2, s6))"

text \<open>The attribute write \<open>hw_reset\<close> (lines 396--409).\<close>

definition hw_reset_set :: "env \<Rightarrow> string \<Rightarrow> nat \<Rightarrow> kstate \<Rightarrow> int \<times> kstate" where
  "hw_reset_set ev buf count s =
     (let (rc, s1) = (if strncmp buf ''reset'' (strlen ''reset'') = 0
                      then anc_reset ev s else (- EINVAL, s))
      in (if rc \<noteq> 0 then rc else int count, s1))"

subsection \<open>Notification channel\<close>

text \<open>
  \<open>netlink_send_message\<close> (lines 102--123) takes the bytes at \<open>p_buffer\<close> and a
  16-bit length; the \<open>memcpy\<close> copies the first \<open>length\<close> bytes of the buffer into
  the message. The function passes \<open>gp_netlink_sock\<close> to \<open>netlink_unicast\<close> untested;
  \<open>netlink_unicast\<close> reads the socket's network namespace first, so that a null
  socket is a null dereference.
\<close>

definition netlink_send_message ::
  "env \<Rightarrow> 8 word list \<Rightarrow> nat \<Rightarrow> kstate \<Rightarrow> fault + (int \<times> kstate)" where
  "netlink_send_message ev p_buffer len s =
     (let s1 = emit (NlmsgNew len) s
      in if \<not> nlmsg_new_ok ev (now s) then Inr (- ENOMEM, s1)
         else let s2 = emit (NlmsgPut len) s1
              in if \<not> nlmsg_put_ok ev (now s1) then Inr (- ENOMEM, emit NlmsgFree s2)
                 else (case gp_netlink_sock s2 of
                         None \<Rightarrow> Inl NullDeref
                       | Some k \<Rightarrow>
                           Inr (netlink_unicast_rc ev (now s2),
                                emit (NetlinkUnicast k (take len p_buffer) USER_PORT) s2)))"

text \<open>\<open>netlink_send_message_to_user\<close> (lines 125--132); the length narrows to 16 bits in the call.\<close>

definition netlink_send_message_to_user ::
  "env \<Rightarrow> 8 word list option \<Rightarrow> nat \<Rightarrow> kstate \<Rightarrow> fault + (int \<times> kstate)" where
  "netlink_send_message_to_user ev p_buffer len s =
     (case p_buffer of
        None \<Rightarrow> Inr (- EINVAL, s)
      | Some buf \<Rightarrow>
          if len > 0 then netlink_send_message ev buf (len mod 65536) s
          else Inr (- EINVAL, s))"

text \<open>\<open>anc_netlink_init\<close> and \<open>anc_netlink_exit\<close> (lines 150--168).\<close>

definition anc_netlink_init :: "env \<Rightarrow> kstate \<Rightarrow> int \<times> kstate" where
  "anc_netlink_init ev s =
     (let r = netlink_kernel_create_res ev (now s);
          s1 = (emit (NetlinkKernelCreate NETLINK_ANC) s)\<lparr>gp_netlink_sock := r\<rparr>
      in (if r = None then - ENOMEM else 0, s1))"

definition anc_netlink_exit :: "kstate \<Rightarrow> kstate" where
  "anc_netlink_exit s =
     (case gp_netlink_sock s of
        None \<Rightarrow> s
      | Some k \<Rightarrow> (emit (NetlinkKernelRelease k) s)\<lparr>gp_netlink_sock := None\<rparr>)"

subsection \<open>Regulators and power\<close>

text \<open>\<open>vreg_setup\<close> (lines 170--227), in parts; \<open>set_vreg\<close> is the store to \<open>data->vreg[i]\<close>.\<close>

definition set_vreg :: "nat \<Rightarrow> nat option \<Rightarrow> kstate \<Rightarrow> kstate" where
  "set_vreg i v s = s\<lparr>g_anc_data := (g_anc_data s)\<lparr>vreg := (vreg (g_anc_data s))[i := v]\<rparr>\<rparr>"

text \<open>The enable sequence of \<open>vreg_setup\<close> once the handle \<open>v\<close> is at hand.\<close>

definition vreg_enable_seq :: "env \<Rightarrow> vreg_config \<Rightarrow> nat \<Rightarrow> nat \<Rightarrow> kstate \<Rightarrow> int \<times> kstate" where
  "vreg_enable_seq ev c i v s =
     (let s1 = emit (RegulatorCountVoltages v) s;
          (rcv, s2) = (if regulator_count_voltages_res ev (now s) > 0
                       then (regulator_set_voltage_rc ev (now s1),
                             emit (RegulatorSetVoltage v (vmin c) (vmax c)) s1)
                       else (0, s1))
      in if rcv \<noteq> 0 then (rcv, s2)
         else let rcl = regulator_set_load_rc ev (now s2);
                  s3 = emit (RegulatorSetLoad v (ua_load c)) s2
              in if rcl \<noteq> 0 then (rcl, s3)
                 else let rce = regulator_enable_rc ev (now s3);
                          s4 = emit (RegulatorEnable v) s3
                      in if rce \<noteq> 0
                         then (rce, set_vreg i None (emit (RegulatorPut v) s4))
                         else (rce, s4))"

text \<open>The body of the loop of \<open>vreg_setup\<close> for the entry whose name matched.\<close>

definition vreg_setup_entry ::
  "env \<Rightarrow> vreg_config \<Rightarrow> nat \<Rightarrow> string \<Rightarrow> bool \<Rightarrow> kstate \<Rightarrow> int \<times> kstate" where
  "vreg_setup_entry ev c i nm enable s =
     (if enable then
        (case vreg (g_anc_data s) ! i of
           None \<Rightarrow>
             (case regulator_get_res ev (now s) of
                Inl e \<Rightarrow> (e, emit (RegulatorGet nm) s)
              | Inr p \<Rightarrow> vreg_enable_seq ev c i p (set_vreg i (Some p) (emit (RegulatorGet nm) s)))
         | Some p \<Rightarrow> vreg_enable_seq ev c i p s)
      else
        (case vreg (g_anc_data s) ! i of
           None \<Rightarrow> (0, s)
         | Some p \<Rightarrow>
             (let s1 = emit (RegulatorIsEnabled p) s;
                  s2 = (if regulator_is_enabled_res ev (now s) \<noteq> 0
                        then emit (RegulatorDisable p) s1 else s1);
                  s3 = emit (RegulatorPut p) s2
              in (0, set_vreg i None s3))))"

fun vreg_setup_loop ::
  "env \<Rightarrow> vreg_config list \<Rightarrow> nat \<Rightarrow> string \<Rightarrow> bool \<Rightarrow> kstate \<Rightarrow> int \<times> kstate" where
  "vreg_setup_loop ev [] i nm enable s = (- EINVAL, s)"
| "vreg_setup_loop ev (c # cs) i nm enable s =
     (if strncmp (name c) nm (strlen (name c)) = 0
      then vreg_setup_entry ev c i nm enable s
      else vreg_setup_loop ev cs (Suc i) nm enable s)"

definition vreg_setup :: "env \<Rightarrow> string \<Rightarrow> bool \<Rightarrow> kstate \<Rightarrow> int \<times> kstate" where
  "vreg_setup ev nm enable s = vreg_setup_loop ev vreg_conf 0 nm enable s"

text \<open>\<open>anc_power_onoff\<close> (lines 412--420) and the attribute write \<open>device_power\<close> (lines 431--449).\<close>

definition anc_power_onoff :: "env \<Rightarrow> int \<Rightarrow> kstate \<Rightarrow> kstate" where
  "anc_power_onoff ev power_onoff s =
     (if anc_gpio_pwr_flag s = 1
      then emit (GpioSetValue (pwr_gpio (g_anc_data s)) power_onoff) s
      else snd (vreg_setup ev ANC_VREG_LDO_NAME (power_onoff \<noteq> 0) s))"

definition device_power_set :: "env \<Rightarrow> string \<Rightarrow> nat \<Rightarrow> kstate \<Rightarrow> int \<times> kstate" where
  "device_power_set ev buf count s =
     (let s1 = emit MutexLock s;
          (rc, s2) = (if strncmp buf ''on'' (strlen ''on'') = 0
                      then (int count, anc_power_onoff ev 1 s1)
                      else if strncmp buf ''off'' (strlen ''off'') = 0
                      then (int count, anc_power_onoff ev 0 s1)
                      else (- EINVAL, s1))
      in (rc, emit MutexUnlock s2))"

subsection \<open>Event bridge\<close>

text \<open>
  \<open>touch_state\<close> is the field of \<open>struct fp_underscreen_info\<close> as the comparison
  with the \<open>unsigned int lasttouchmode\<close> sees it.
\<close>

record fp_underscreen_info =
  touch_state :: "32 word"

text \<open>\<open>anc_opticalfp_tp_handler\<close> (lines 231--247).\<close>

definition anc_opticalfp_tp_handler ::
  "hdr \<Rightarrow> env \<Rightarrow> fp_underscreen_info \<Rightarrow> kstate \<Rightarrow> fault + (int \<times> kstate)" where
  "anc_opticalfp_tp_handler h ev tp_info s =
     (if touch_state tp_info = lasttouchmode s then Inr (0, s)
      else
        (let netlink_msg = (of_int (event_val h (if touch_state tp_info = 1
                                                 then ANC_NETLINK_EVENT_TOUCH_DOWN
                                                 else ANC_NETLINK_EVENT_TOUCH_UP)) :: 8 word)
         in case g_anc_data_ptr s of
              PtrNull \<Rightarrow> Inl NullDeref
            | PtrFreed \<Rightarrow> Inl UseAfterFree
            | PtrDevData \<Rightarrow>
                (let s1 = emit (PmWakeupEvent (fp_wakelock (g_anc_data s))
                                  (msecs_to_jiffies h ANC_WAKELOCK_HOLD_TIME)) s
                 in case netlink_send_message_to_user ev (Some [netlink_msg]) 1 s1 of
                      Inl f \<Rightarrow> Inl f
                    | Inr (rc, s2) \<Rightarrow> Inr (0, s2\<lparr>lasttouchmode := touch_state tp_info\<rparr>))))"

text \<open>
  \<open>struct msm_drm_notifier\<close>: \<open>data\<close> points to an integer object; the handler reads
  it as \<open>unsigned int\<close> in one branch and reads its first byte (the low byte, the
  target being little-endian) as \<open>uint8_t\<close> in the other.
\<close>

record msm_drm_notifier =
  data :: "32 word option"

text \<open>\<open>anc_fb_state_chg_callback\<close> (lines 249--285); \<open>set_fb_black\<close> is the store to \<open>anc_data->fb_black\<close>.\<close>

definition set_fb_black :: "8 word \<Rightarrow> kstate \<Rightarrow> kstate" where
  "set_fb_black v s = s\<lparr>g_anc_data := (g_anc_data s)\<lparr>fb_black := v\<rparr>\<rparr>"

definition anc_fb_state_chg_callback ::
  "hdr \<Rightarrow> env \<Rightarrow> 64 word \<Rightarrow> msm_drm_notifier option \<Rightarrow> kstate \<Rightarrow> fault + (int \<times> kstate)" where
  "anc_fb_state_chg_callback h ev val evdata s =
     (if val = MSM_DRM_ONSCREENFINGERPRINT_EVENT h then
        (case evdata of
           None \<Rightarrow> Inl NullDeref
         | Some evd \<Rightarrow>
             (case data evd of
                None \<Rightarrow> Inl NullDeref
              | Some w \<Rightarrow>
                  (let op_mode = (ucast w :: 8 word)
                   in if uint op_mode = ANC_UI_READY h
                      then (case netlink_send_message_to_user ev
                                   (Some [of_int (event_val h ANC_NETLINK_EVENT_UI_READY)]) 1 s of
                              Inl f \<Rightarrow> Inl f
                            | Inr (rc, s1) \<Rightarrow> Inr (NOTIFY_OK, s1))
                      else if uint op_mode \<noteq> ANC_UI_DISAPPREAR h
                      then Inr (NOTIFY_OK, s) \<comment> \<open>\<open>pr_err\<close> only\<close>
                      else Inr (NOTIFY_OK, s))))
      else if val = MSM_DRM_EARLY_EVENT_BLANK h then
        (case evdata of
           None \<Rightarrow> Inr (NOTIFY_OK, s)
         | Some evd \<Rightarrow>
             (case data evd of
                None \<Rightarrow> Inr (NOTIFY_OK, s)
              | Some blank \<Rightarrow>
                  if blank = MSM_DRM_BLANK_POWERDOWN h
                  then (case netlink_send_message_to_user ev
                               (Some [of_int (event_val h ANC_NETLINK_EVENT_SCR_OFF)]) 1
                               (set_fb_black 1 s) of
                          Inl f \<Rightarrow> Inl f
                        | Inr (rc, s1) \<Rightarrow> Inr (NOTIFY_OK, s1))
                  else if blank = MSM_DRM_BLANK_UNBLANK h
                  then (case netlink_send_message_to_user ev
                               (Some [of_int (event_val h ANC_NETLINK_EVENT_SCR_ON)]) 1
                               (set_fb_black 0 s) of
                          Inl f \<Rightarrow> Inl f
                        | Inr (rc, s1) \<Rightarrow> Inr (NOTIFY_OK, s1))
                  else Inr (NOTIFY_OK, s)))
      else Inr (NOTIFY_OK, s))"

text \<open>\<open>netlink_event_map\<close> and \<open>forward_netlink_event_set\<close> (lines 290--330).\<close>

definition netlink_event_map :: "hdr \<Rightarrow> (string \<times> int) list" where
  "netlink_event_map h =
     [(''test'', event_val h ANC_NETLINK_EVENT_TEST),
      (''irq'', event_val h ANC_NETLINK_EVENT_IRQ),
      (''screen_off'', event_val h ANC_NETLINK_EVENT_SCR_OFF),
      (''screen_on'', event_val h ANC_NETLINK_EVENT_SCR_ON),
      (''touch_down'', event_val h ANC_NETLINK_EVENT_TOUCH_DOWN),
      (''touch_up'', event_val h ANC_NETLINK_EVENT_TOUCH_UP),
      (''ui_ready'', event_val h ANC_NETLINK_EVENT_UI_READY),
      (''exit'', event_val h ANC_NETLINK_EVENT_EXIT)]"

fun netlink_event_lookup :: "(string \<times> int) list \<Rightarrow> string \<Rightarrow> int \<Rightarrow> int" where
  "netlink_event_lookup [] p_buffer msg = msg"
| "netlink_event_lookup ((n, e) # m) p_buffer msg =
     (if strncmp p_buffer n (strlen n) = 0 then e
      else netlink_event_lookup m p_buffer msg)"

text \<open>The bytes of an integer object of \<open>n\<close> bytes, lowest address first (little-endian).\<close>

definition obj_bytes :: "nat \<Rightarrow> int \<Rightarrow> 8 word list" where
  "obj_bytes n v = map (\<lambda>k. of_int (v div 256 ^ k)) [0..<n]"

definition forward_netlink_event_set ::
  "hdr \<Rightarrow> env \<Rightarrow> string \<Rightarrow> nat \<Rightarrow> kstate \<Rightarrow> fault + (int \<times> kstate)" where
  "forward_netlink_event_set h ev p_buffer count s =
     (let netlink_msg = netlink_event_lookup (netlink_event_map h) p_buffer
                          (event_val h ANC_NETLINK_EVENT_INVALID)
      in if netlink_msg = event_val h ANC_NETLINK_EVENT_INVALID then Inr (- EINVAL, s)
         else netlink_send_message_to_user ev
                (Some (obj_bytes (sizeof_event_type h) netlink_msg)) (sizeof_event_type h) s)"

subsection \<open>Command dispatch and module load\<close>

text \<open>\<open>anc_ioctl\<close> (lines 550--584); \<open>_IOC_TYPE\<close> is bits 8 to 15 of the command.\<close>

definition IOC_TYPE :: "32 word \<Rightarrow> 32 word" where
  "IOC_TYPE cmd = drop_bit 8 cmd AND 0xff"

definition anc_ioctl :: "hdr \<Rightarrow> env \<Rightarrow> 32 word \<Rightarrow> kstate \<Rightarrow> int \<times> kstate" where
  "anc_ioctl h ev cmd s =
     (if IOC_TYPE cmd \<noteq> ANC_IOC_MAGIC h then (- ENOTTY, s)
      else if cmd = ANC_IOC_RESET h then anc_reset ev s
      else if cmd = ANC_IOC_ENABLE_POWER h then (0, anc_power_onoff ev 1 s)
      else if cmd = ANC_IOC_DISABLE_POWER h then (0, anc_power_onoff ev 0 s)
      else if cmd = ANC_IOC_CLEAR_FLAG h then (0, s\<lparr>lasttouchmode := 0\<rparr>)
      else (- EINVAL, s))"

text \<open>
  \<open>ancfp_init\<close> and \<open>ancfp_exit\<close> (lines 746--783). \<open>platform_driver_register\<close> is a
  kernel call; the probe it may run is not part of \<open>ancfp_init\<close>.
\<close>

definition ancfp_init :: "hdr \<Rightarrow> env \<Rightarrow> kstate \<Rightarrow> int \<times> kstate" where
  "ancfp_init h ev s =
     (if FP_JIIOV_0302 h \<noteq> get_fpsensor_type_res ev (now s)
         \<and> FP_JIIOV_0301 h \<noteq> get_fpsensor_type_res ev (now s)
      then (- EINVAL, s)
      else
        (let rc = platform_driver_register_rc ev (now s);
             s1 = emit PlatformDriverRegister s;
             s2 = snd (anc_netlink_init ev s1);
             s3 = emit OpticalfpIrqHandlerRegister s2
         in (rc, s3)))"

definition ancfp_exit :: "kstate \<Rightarrow> kstate" where
  "ancfp_exit s = emit PlatformDriverUnregister (anc_netlink_exit s)"

subsection \<open>Observations on traces\<close>

text \<open>The messages sent: the payloads handed to \<open>netlink_unicast\<close>, in order.\<close>

fun sent :: "event list \<Rightarrow> 8 word list list" where
  "sent [] = []"
| "sent (NetlinkUnicast k p port # es) = p # sent es"
| "sent (e # es) = sent es"

text \<open>
  Invoking the touch handler \<open>n\<close> times in a row with the same touch state; a fault
  ends the run.
\<close>

primrec tp_handler_times ::
  "nat \<Rightarrow> hdr \<Rightarrow> env \<Rightarrow> fp_underscreen_info \<Rightarrow> kstate \<Rightarrow> fault + kstate" where
  "tp_handler_times 0 h ev tp_info s = Inr s"
| "tp_handler_times (Suc n) h ev tp_info s =
     (case anc_opticalfp_tp_handler h ev tp_info s of
        Inl f \<Rightarrow> Inl f
      | Inr (rc, s1) \<Rightarrow> tp_handler_times n h ev tp_info s1)"

text \<open>
  The pin, power-line and regulator operations, and whether every one of them in a
  trace happens between a \<open>MutexLock\<close> and the next \<open>MutexUnlock\<close>.
\<close>

fun hw_op :: "event \<Rightarrow> bool" where
  "hw_op (PinctrlSelectState pc st) = True"
| "hw_op (GpioSetValue g v) = True"
| "hw_op (RegulatorGet nm) = True"
| "hw_op (RegulatorCountVoltages v) = True"
| "hw_op (RegulatorSetVoltage v lo hi) = True"
| "hw_op (RegulatorSetLoad v l) = True"
| "hw_op (RegulatorEnable v) = True"
| "hw_op (RegulatorIsEnabled v) = True"
| "hw_op (RegulatorDisable v) = True"
| "hw_op (RegulatorPut v) = True"
| "hw_op e = False"

fun under_lock :: "bool \<Rightarrow> event list \<Rightarrow> bool" where
  "under_lock held [] = True"
| "under_lock held (MutexLock # es) = under_lock True es"
| "under_lock held (MutexUnlock # es) = under_lock False es"
| "under_lock held (e # es) = ((if hw_op e then held else True) \<and> under_lock held es)"

subsection \<open>A sample configuration\<close>

text \<open>
  Modelled from the spec: the headers \<open>jiiov_platform.h\<close>, \<open>oplus_fp_common.h\<close> and
  \<open>msm_drm_notify.h\<close> are missing. The event codes are numbered in the order in which
  the spec lists them (test, irq, screen-off, screen-on, touch-down, touch-up,
  ui-ready, exit, invalid-marker); the enumeration has the size of an \<open>int\<close>; the
  command codes are \<open>_IO(magic, nr)\<close> values of one magic; \<open>msecs_to_jiffies\<close> is that
  of a kernel with 250 ticks a second; the remaining numbers are samples. The general
  theorems below hold for every header.
\<close>

definition sample_event_val :: "ANC_NETLINK_EVENT_TYPE \<Rightarrow> int" where
  "sample_event_val e =
     (case e of
        ANC_NETLINK_EVENT_TEST \<Rightarrow> 0
      | ANC_NETLINK_EVENT_IRQ \<Rightarrow> 1
      | ANC_NETLINK_EVENT_SCR_OFF \<Rightarrow> 2
      | ANC_NETLINK_EVENT_SCR_ON \<Rightarrow> 3
      | ANC_NETLINK_EVENT_TOUCH_DOWN \<Rightarrow> 4
      | ANC_NETLINK_EVENT_TOUCH_UP \<Rightarrow> 5
      | ANC_NETLINK_EVENT_UI_READY \<Rightarrow> 6
      | ANC_NETLINK_EVENT_EXIT \<Rightarrow> 7
      | ANC_NETLINK_EVENT_INVALID \<Rightarrow> 8)"

definition sample_hdr :: hdr where
  "sample_hdr =
     \<lparr>event_val = sample_event_val,
      sizeof_event_type = 4,
      msecs_to_jiffies = (\<lambda>m. (m + 3) div 4),
      ANC_UI_READY = 1,
      ANC_UI_DISAPPREAR = 0,
      MSM_DRM_ONSCREENFINGERPRINT_EVENT = 0x10,
      MSM_DRM_EARLY_EVENT_BLANK = 0x02,
      MSM_DRM_BLANK_POWERDOWN = 1,
      MSM_DRM_BLANK_UNBLANK = 0,
      ANC_IOC_MAGIC = 0x61,
      ANC_IOC_RESET = 0x6100,
      ANC_IOC_ENABLE_POWER = 0x6101,
      ANC_IOC_DISABLE_POWER = 0x6102,
      ANC_IOC_CLEAR_FLAG = 0x6103,
      FP_JIIOV_0302 = 11,
      FP_JIIOV_0301 = 10\<rparr>"

text \<open>An environment in which every kernel call succeeds and the sensor is a JIIOV 0302.\<close>

definition good_env :: env where
  "good_env =
     \<lparr>nlmsg_new_ok = (\<lambda>t. True),
      nlmsg_put_ok = (\<lambda>t. True),
      netlink_unicast_rc = (\<lambda>t. 0),
      netlink_kernel_create_res = (\<lambda>t. Some 7),
      pinctrl_select_state_rc = (\<lambda>t. 0),
      regulator_get_res = (\<lambda>t. Inr 5),
      regulator_count_voltages_res = (\<lambda>t. 1),
      regulator_set_voltage_rc = (\<lambda>t. 0),
      regulator_set_load_rc = (\<lambda>t. 0),
      regulator_enable_rc = (\<lambda>t. 0),
      regulator_is_enabled_res = (\<lambda>t. 1),
      platform_driver_register_rc = (\<lambda>t. 0),
      get_fpsensor_type_res = (\<lambda>t. 11)\<rparr>"

text \<open>The same, but \<open>regulator_set_voltage\<close> fails with \<open>-EINVAL\<close>.\<close>

definition set_voltage_fails_env :: env where
  "set_voltage_fails_env = good_env\<lparr>regulator_set_voltage_rc := (\<lambda>t. - 22)\<rparr>"

text \<open>The same as \<open>good_env\<close>, but \<open>regulator_enable\<close> fails with \<open>-EINVAL\<close>.\<close>

definition enable_fails_env :: env where
  "enable_fails_env = good_env\<lparr>regulator_enable_rc := (\<lambda>t. - 22)\<rparr>"

text \<open>The same as \<open>good_env\<close>, but \<open>nlmsg_new\<close> finds no memory.\<close>

definition no_memory_env :: env where
  "no_memory_env = good_env\<lparr>nlmsg_new_ok := (\<lambda>t. False)\<rparr>"

text \<open>The same as \<open>good_env\<close>, but \<open>netlink_kernel_create\<close> fails.\<close>

definition create_fails_env :: env where
  "create_fails_env = good_env\<lparr>netlink_kernel_create_res := (\<lambda>t. None)\<rparr>"

text \<open>The same as \<open>good_env\<close>, but the sensor is of another vendor.\<close>

definition other_sensor_env :: env where
  "other_sensor_env = good_env\<lparr>get_fpsensor_type_res := (\<lambda>t. 3)\<rparr>"

text \<open>
  A bound device in regulator mode with an open notification endpoint, and the same
  device before the endpoint exists.
\<close>

definition bound_dev :: anc_data where
  "bound_dev =
     \<lparr>fingerprint_pinctrl = 1, pinctrl_state = [2, 3], vreg = [None], fp_wakelock = 4,
      pwr_gpio = 0, rst_gpio = 0, fb_black = 0\<rparr>"

definition bound_state :: kstate where
  "bound_state =
     \<lparr>g_anc_data = bound_dev, g_anc_data_ptr = PtrDevData, gp_netlink_sock = Some 7,
      lasttouchmode = 0, anc_gpio_pwr_flag = 0, trace = []\<rparr>"

definition no_endpoint_state :: kstate where
  "no_endpoint_state = bound_state\<lparr>gp_netlink_sock := None\<rparr>"

section \<open>Properties\<close>

subsection \<open>Auxiliary facts\<close>

lemma now_emit: "now (emit e s) = Suc (now s)"
  by (simp add: now_def emit_def)

lemma g_anc_data_emit: "g_anc_data (emit e s) = g_anc_data s"
  by (simp add: emit_def)

lemma gp_netlink_sock_emit: "gp_netlink_sock (emit e s) = gp_netlink_sock s"
  by (simp add: emit_def)

lemma trace_emit: "trace (emit e s) = trace s @ [e]"
  by (simp add: emit_def)

lemma cchar_Nil: "cchar [] = 0"
  by (simp add: cchar_def)

lemma cchar_Cons: "cchar (c # cs) = of_char c"
  by (simp add: cchar_def)

text \<open>
  Comparing over the length of a NUL-free first string tests whether that string is
  a prefix of the second.
\<close>

lemma strncmp_prefix:
  "nul_free n \<Longrightarrow> (strncmp n nm (strlen n) = 0) = prefix n nm"
proof (induction n arbitrary: nm)
  case Nil
  then show ?case by (simp add: strlen_def)
next
  case (Cons c cs)
  then have c0: "of_char c \<noteq> (0::nat)" and nf: "nul_free cs"
    by (simp_all add: nul_free_def)
  have len: "strlen (c # cs) = Suc (strlen cs)"
    using c0 by (simp add: strlen_def)
  show ?case
  proof (cases nm)
    case Nil
    then show ?thesis using c0 by (simp add: len cchar_Nil cchar_Cons)
  next
    case (Cons d ds)
    then show ?thesis
      using c0 Cons.IH [OF nf, of ds] by (auto simp add: len cchar_Cons)
  qed
qed

lemma nul_free_pctl_names:
  "nul_free ''anc_reset_reset''" "nul_free ''anc_reset_active''"
  by (simp_all add: nul_free_def)

lemma select_reset_reset:
  "select_pin_ctl ev ''anc_reset_reset'' s =
     (pinctrl_select_state_rc ev (now s),
      emit (PinctrlSelectState (fingerprint_pinctrl (g_anc_data s))
                               (pinctrl_state (g_anc_data s) ! 0)) s)"
  by (simp add: select_pin_ctl_def pctl_names_def strncmp_prefix nul_free_pctl_names)

lemma select_reset_active:
  "select_pin_ctl ev ''anc_reset_active'' s =
     (pinctrl_select_state_rc ev (now s),
      emit (PinctrlSelectState (fingerprint_pinctrl (g_anc_data s))
                               (pinctrl_state (g_anc_data s) ! 1)) s)"
  by (simp add: select_pin_ctl_def pctl_names_def strncmp_prefix nul_free_pctl_names)

lemma sent_append: "sent (xs @ ys) = sent xs @ sent ys"
  by (induction xs rule: sent.induct) simp_all

text \<open>What a send does on an existing endpoint, by the outcome of its two allocations.\<close>

lemma send_message_cases:
  assumes "gp_netlink_sock s = Some k"
  shows "netlink_send_message ev buf len s =
           Inr (if \<not> nlmsg_new_ok ev (now s)
                then (- ENOMEM, s\<lparr>trace := trace s @ [NlmsgNew len]\<rparr>)
                else if \<not> nlmsg_put_ok ev (Suc (now s))
                then (- ENOMEM, s\<lparr>trace := trace s @ [NlmsgNew len, NlmsgPut len, NlmsgFree]\<rparr>)
                else (netlink_unicast_rc ev (now s + 2),
                      s\<lparr>trace := trace s @ [NlmsgNew len, NlmsgPut len,
                           NetlinkUnicast k (take len buf) USER_PORT]\<rparr>))"
  using assms
  by (simp add: netlink_send_message_def Let_def now_emit gp_netlink_sock_emit)
     (simp add: emit_def)

lemma send_to_user_ok:
  assumes "gp_netlink_sock s = Some k"
    and "nlmsg_new_ok ev (now s)" and "nlmsg_put_ok ev (Suc (now s))"
    and "0 < len" and "len < 65536"
  shows "netlink_send_message_to_user ev (Some buf) len s =
           Inr (netlink_unicast_rc ev (now s + 2),
                s\<lparr>trace := trace s @ [NlmsgNew len, NlmsgPut len,
                     NetlinkUnicast k (take len buf) USER_PORT]\<rparr>)"
  using assms by (simp add: netlink_send_message_to_user_def send_message_cases)

text \<open>
  Without an endpoint, a send whose allocations succeed reaches \<open>netlink_unicast\<close> with
  the null socket.
\<close>

lemma send_to_user_null_endpoint:
  assumes "gp_netlink_sock s = None"
    and "nlmsg_new_ok ev (now s)" and "nlmsg_put_ok ev (Suc (now s))" and "0 < len"
  shows "netlink_send_message_to_user ev (Some buf) len s = Inl NullDeref"
  using assms
  by (simp add: netlink_send_message_to_user_def netlink_send_message_def Let_def now_emit
      gp_netlink_sock_emit)

lemma send_one_byte:
  assumes "gp_netlink_sock s = Some k"
  shows "\<exists>rc s'. netlink_send_message_to_user ev (Some [b]) (Suc 0) s = Inr (rc, s')
           \<and> sent (trace s') =
               sent (trace s) @
                 (if nlmsg_new_ok ev (now s) \<and> nlmsg_put_ok ev (Suc (now s)) then [[b]] else [])
           \<and> lasttouchmode s' = lasttouchmode s
           \<and> g_anc_data s' = g_anc_data s"
  using assms
  by (simp add: netlink_send_message_to_user_def send_message_cases sent_append)

text \<open>
  On a bound device with an endpoint the touch handler returns 0, records the
  incoming state and sends its message if the state differs and the allocations of
  the send succeed.
\<close>

lemma tp_handler_once:
  assumes "g_anc_data_ptr s = PtrDevData" and "gp_netlink_sock s = Some k"
  shows "\<exists>s'. anc_opticalfp_tp_handler h ev tp s = Inr (0, s')
           \<and> sent (trace s') =
               sent (trace s) @
                 (if touch_state tp \<noteq> lasttouchmode s
                     \<and> nlmsg_new_ok ev (now s + 1) \<and> nlmsg_put_ok ev (now s + 2)
                  then [[of_int (event_val h (if touch_state tp = 1
                                              then ANC_NETLINK_EVENT_TOUCH_DOWN
                                              else ANC_NETLINK_EVENT_TOUCH_UP))]]
                  else [])
           \<and> lasttouchmode s' = touch_state tp"
proof (cases "touch_state tp = lasttouchmode s")
  case True
  then show ?thesis
    by (simp add: anc_opticalfp_tp_handler_def)
next
  case False
  let ?b = "of_int (event_val h (if touch_state tp = 1 then ANC_NETLINK_EVENT_TOUCH_DOWN
                                 else ANC_NETLINK_EVENT_TOUCH_UP)) :: 8 word"
  let ?s1 = "emit (PmWakeupEvent (fp_wakelock (g_anc_data s))
                     (msecs_to_jiffies h ANC_WAKELOCK_HOLD_TIME)) s"
  have "gp_netlink_sock ?s1 = Some k"
    using assms(2) by (simp add: gp_netlink_sock_emit)
  from send_one_byte [OF this, of ev ?b]
  obtain rc s2 where
    snd: "netlink_send_message_to_user ev (Some [?b]) (Suc 0) ?s1 = Inr (rc, s2)"
    and sent2: "sent (trace s2) =
        sent (trace ?s1) @
          (if nlmsg_new_ok ev (now ?s1) \<and> nlmsg_put_ok ev (Suc (now ?s1)) then [[?b]] else [])"
    by blast
  have "anc_opticalfp_tp_handler h ev tp s = Inr (0, s2\<lparr>lasttouchmode := touch_state tp\<rparr>)"
    using False assms(1) snd by (simp add: anc_opticalfp_tp_handler_def Let_def)
  moreover have "sent (trace (s2\<lparr>lasttouchmode := touch_state tp\<rparr>)) =
      sent (trace s) @
        (if nlmsg_new_ok ev (now s + 1) \<and> nlmsg_put_ok ev (now s + 2) then [[?b]] else [])"
    using sent2 by (simp add: now_emit trace_emit sent_append)
  ultimately show ?thesis
    using False by simp
qed

text \<open>Once the recorded state equals the incoming one the handler changes nothing.\<close>

lemma tp_handler_same_state:
  "touch_state tp = lasttouchmode s \<Longrightarrow> anc_opticalfp_tp_handler h ev tp s = Inr (0, s)"
  by (simp add: anc_opticalfp_tp_handler_def)

lemma tp_handler_steady:
  assumes "touch_state tp = lasttouchmode s"
  shows "tp_handler_times n h ev tp s = Inr s"
  using assms by (induction n) (simp_all add: tp_handler_same_state)

text \<open>Without a device context the handler faults on a change of state, before any send.\<close>

lemma tp_handler_null_context:
  assumes "touch_state tp \<noteq> lasttouchmode s" and "g_anc_data_ptr s = PtrNull"
  shows "anc_opticalfp_tp_handler h ev tp s = Inl NullDeref"
  using assms by (simp add: anc_opticalfp_tp_handler_def Let_def)

lemma strncmp_prefix_snd:
  "nul_free n \<Longrightarrow> (strncmp buf n (strlen n) = 0) = prefix n buf"
proof (induction n arbitrary: buf)
  case Nil
  then show ?case by (simp add: strlen_def)
next
  case (Cons c cs)
  then have c0: "of_char c \<noteq> (0::nat)" and nf: "nul_free cs"
    by (simp_all add: nul_free_def)
  have len: "strlen (c # cs) = Suc (strlen cs)"
    using c0 by (simp add: strlen_def)
  show ?case
  proof (cases buf)
    case Nil
    then show ?thesis using c0 by (simp add: len cchar_Nil cchar_Cons)
  next
    case (Cons d ds)
    then show ?thesis
      using c0 Cons.IH [OF nf, of ds] by (auto simp add: len cchar_Cons)
  qed
qed

lemma nul_free_tokens:
  "nul_free ''ldo''" "nul_free ''on''" "nul_free ''off''" "nul_free ''reset''"
  by (simp_all add: nul_free_def)

lemma nul_free_event_names:
  "nul_free ''test''" "nul_free ''irq''" "nul_free ''screen_off''" "nul_free ''screen_on''"
  "nul_free ''touch_down''" "nul_free ''touch_up''" "nul_free ''ui_ready''" "nul_free ''exit''"
  by (simp_all add: nul_free_def)

lemma fb_black_send:
  assumes "netlink_send_message_to_user ev p len s = Inr (rc, s')"
  shows "fb_black (g_anc_data s') = fb_black (g_anc_data s)"
  using assms
  by (auto simp add: netlink_send_message_to_user_def netlink_send_message_def Let_def
      emit_def split: option.splits if_splits)

lemma set_fb_black_simps:
  "trace (set_fb_black v s) = trace s"
  "now (set_fb_black v s) = now s"
  "gp_netlink_sock (set_fb_black v s) = gp_netlink_sock s"
  "fb_black (g_anc_data (set_fb_black v s)) = v"
  by (simp_all add: set_fb_black_def now_def)

lemma set_vreg_simps:
  "trace (set_vreg i v s) = trace s"
  "now (set_vreg i v s) = now s"
  "vreg (g_anc_data (set_vreg i v s)) = (vreg (g_anc_data s))[i := v]"
  "anc_gpio_pwr_flag (set_vreg i v s) = anc_gpio_pwr_flag s"
  by (simp_all add: set_vreg_def now_def)

lemma emit_keeps:
  "vreg (g_anc_data (emit e s)) = vreg (g_anc_data s)"
  "anc_gpio_pwr_flag (emit e s) = anc_gpio_pwr_flag s"
  by (simp_all add: emit_def)

lemma vreg_setup_ldo:
  "vreg_setup ev ANC_VREG_LDO_NAME enable s =
     vreg_setup_entry ev (hd vreg_conf) 0 ''ldo'' enable s"
  by (simp add: vreg_setup_def vreg_conf_def ANC_VREG_LDO_NAME_def strncmp_prefix
      nul_free_tokens)

lemma anc_power_onoff_vreg:
  "anc_gpio_pwr_flag s \<noteq> 1 \<Longrightarrow>
   anc_power_onoff ev v s = snd (vreg_setup_entry ev (hd vreg_conf) 0 ''ldo'' (v \<noteq> 0) s)"
  by (simp add: anc_power_onoff_def vreg_setup_ldo)

text \<open>In regulator mode, power off leaves the table entry without a handle.\<close>

lemma power_off_releases:
  assumes "anc_gpio_pwr_flag s \<noteq> 1" and "vreg (g_anc_data s) \<noteq> []"
  shows "vreg (g_anc_data (anc_power_onoff ev 0 s)) ! 0 = None"
  using assms
  by (cases "vreg (g_anc_data s)")
     (auto simp add: anc_power_onoff_vreg vreg_setup_entry_def Let_def set_vreg_simps
        emit_keeps split: option.splits)

lemma vreg_enable_seq_keeps:
  "anc_gpio_pwr_flag (snd (vreg_enable_seq ev c i v s)) = anc_gpio_pwr_flag s"
  "length (vreg (g_anc_data (snd (vreg_enable_seq ev c i v s)))) =
     length (vreg (g_anc_data s))"
  by (simp_all add: vreg_enable_seq_def Let_def set_vreg_simps emit_keeps split: prod.splits)

lemma anc_power_onoff_keeps:
  "anc_gpio_pwr_flag (anc_power_onoff ev v s) = anc_gpio_pwr_flag s"
  "length (vreg (g_anc_data (anc_power_onoff ev v s))) = length (vreg (g_anc_data s))"
  by (simp_all add: anc_power_onoff_def vreg_setup_ldo vreg_setup_entry_def
      vreg_enable_seq_keeps set_vreg_simps emit_keeps Let_def
      split: option.splits sum.splits)

text \<open>
  Power on followed by power off leaves no handle, whatever the regulator calls of
  either step return.
\<close>

lemma power_on_off_releases:
  assumes "anc_gpio_pwr_flag s \<noteq> 1" and "vreg (g_anc_data s) \<noteq> []"
  shows "vreg (g_anc_data (anc_power_onoff ev' 0 (anc_power_onoff ev 1 s))) ! 0 = None"
proof (rule power_off_releases)
  show "anc_gpio_pwr_flag (anc_power_onoff ev 1 s) \<noteq> 1"
    using assms(1) by (simp add: anc_power_onoff_keeps)
  show "vreg (g_anc_data (anc_power_onoff ev 1 s)) \<noteq> []"
    using assms(2) anc_power_onoff_keeps(2) [of ev 1 s] by (metis length_0_conv)
qed

lemma lookup_touch_down:
  "netlink_event_lookup (netlink_event_map h) ''touch_down'' d =
     event_val h ANC_NETLINK_EVENT_TOUCH_DOWN"
  by (simp add: netlink_event_map_def strncmp_prefix_snd nul_free_event_names)

lemma length_obj_bytes: "length (obj_bytes n v) = n"
  by (simp add: obj_bytes_def)

text \<open>
  The attribute write sends the whole object of type \<open>ANC_NETLINK_EVENT_TYPE\<close>:
  as many bytes as the enumeration type has.
\<close>

lemma forward_touch_down_bytes:
  assumes "gp_netlink_sock s = Some k"
    and "nlmsg_new_ok ev (now s)" and "nlmsg_put_ok ev (Suc (now s))"
    and "0 < sizeof_event_type h" and "sizeof_event_type h < 65536"
    and "event_val h ANC_NETLINK_EVENT_TOUCH_DOWN \<noteq> event_val h ANC_NETLINK_EVENT_INVALID"
  shows "forward_netlink_event_set h ev ''touch_down'' count s =
           Inr (netlink_unicast_rc ev (now s + 2),
                s\<lparr>trace := trace s @
                     [NlmsgNew (sizeof_event_type h), NlmsgPut (sizeof_event_type h),
                      NetlinkUnicast k
                        (obj_bytes (sizeof_event_type h)
                           (event_val h ANC_NETLINK_EVENT_TOUCH_DOWN))
                        USER_PORT]\<rparr>)"
  unfolding forward_netlink_event_set_def lookup_touch_down
  using assms by (simp add: send_to_user_ok length_obj_bytes)

subsection \<open>Touch handler\<close>

text \<open>
  C1. On a bound device with a notification endpoint, every invocation of the touch
  handler returns 0 and leaves \<open>lasttouchmode\<close> equal to the incoming touch state; it
  sends a message if and only if the incoming state differs from \<open>lasttouchmode\<close> and
  the message buffer of the send can be allocated (\<open>nlmsg_new\<close> and \<open>nlmsg_put\<close>
  succeed); the message is the one byte touch-down if the incoming state is 1 and
  touch-up otherwise. Invoking the handler \<open>n + 1\<close> times in a row with the same
  state ends in the state the first invocation leaves: at most that one message, on
  the first transition, and nothing further.
\<close>

theorem tp_handler_dedup:
  assumes "g_anc_data_ptr s = PtrDevData" and "gp_netlink_sock s = Some k"
  shows "\<exists>s'. anc_opticalfp_tp_handler h ev tp s = Inr (0, s')
           \<and> sent (trace s') =
               sent (trace s) @
                 (if touch_state tp \<noteq> lasttouchmode s
                     \<and> nlmsg_new_ok ev (now s + 1) \<and> nlmsg_put_ok ev (now s + 2)
                  then [[of_int (event_val h (if touch_state tp = 1
                                              then ANC_NETLINK_EVENT_TOUCH_DOWN
                                              else ANC_NETLINK_EVENT_TOUCH_UP))]]
                  else [])
           \<and> lasttouchmode s' = touch_state tp
           \<and> tp_handler_times (Suc n) h ev tp s = Inr s'"
proof -
  from tp_handler_once [OF assms, of h ev tp]
  obtain s' where
    once: "anc_opticalfp_tp_handler h ev tp s = Inr (0, s')"
    and msgs: "sent (trace s') =
        sent (trace s) @
          (if touch_state tp \<noteq> lasttouchmode s
              \<and> nlmsg_new_ok ev (now s + 1) \<and> nlmsg_put_ok ev (now s + 2)
           then [[of_int (event_val h (if touch_state tp = 1
                                       then ANC_NETLINK_EVENT_TOUCH_DOWN
                                       else ANC_NETLINK_EVENT_TOUCH_UP))]]
           else [])"
    and rec: "lasttouchmode s' = touch_state tp"
    by blast
  have "tp_handler_times (Suc n) h ev tp s = Inr s'"
    using once tp_handler_steady [of tp s' n h ev] rec by simp
  with once msgs rec show ?thesis
    by blast
qed

theorem tp_handler_dedup_witness:
  "g_anc_data_ptr bound_state = PtrDevData
   \<and> gp_netlink_sock bound_state = Some 7
   \<and> anc_opticalfp_tp_handler sample_hdr good_env \<lparr>touch_state = 1\<rparr> bound_state =
       Inr (0, bound_state\<lparr>lasttouchmode := 1,
                 trace := [PmWakeupEvent 4 100, NlmsgNew 1, NlmsgPut 1,
                           NetlinkUnicast 7 [4] 100]\<rparr>)
   \<and> tp_handler_times 3 sample_hdr good_env \<lparr>touch_state = 1\<rparr> bound_state =
       Inr (bound_state\<lparr>lasttouchmode := 1,
                 trace := [PmWakeupEvent 4 100, NlmsgNew 1, NlmsgPut 1,
                           NetlinkUnicast 7 [4] 100]\<rparr>)"
proof -
  have ptr: "g_anc_data_ptr bound_state = PtrDevData"
    and sock: "gp_netlink_sock bound_state = Some 7"
    by (simp_all add: bound_state_def)
  have once: "anc_opticalfp_tp_handler sample_hdr good_env \<lparr>touch_state = 1\<rparr> bound_state =
       Inr (0, bound_state\<lparr>lasttouchmode := 1,
                 trace := [PmWakeupEvent 4 100, NlmsgNew 1, NlmsgPut 1,
                           NetlinkUnicast 7 [4] 100]\<rparr>)"
    by (simp add: anc_opticalfp_tp_handler_def netlink_send_message_to_user_def
        netlink_send_message_def bound_state_def bound_dev_def good_env_def sample_hdr_def
        sample_event_val_def Let_def emit_def now_def USER_PORT_def
        ANC_WAKELOCK_HOLD_TIME_def)
  have three: "(3::nat) = Suc 2"
    by simp
  show ?thesis
    using tp_handler_dedup [OF ptr sock, of sample_hdr good_env "\<lparr>touch_state = 1\<rparr>" 2]
    unfolding three [symmetric] once
    using ptr sock by auto
qed

text \<open>
  When \<open>nlmsg_new\<close> finds no memory, an invocation with a changed touch state sends
  no message and records the state all the same, so that repeating the invocation
  sends nothing either.
\<close>

theorem tp_handler_no_memory_counterexample:
  "touch_state \<lparr>touch_state = 1\<rparr> \<noteq> lasttouchmode bound_state
   \<and> anc_opticalfp_tp_handler sample_hdr no_memory_env \<lparr>touch_state = 1\<rparr> bound_state =
       Inr (0, bound_state\<lparr>lasttouchmode := 1, trace := [PmWakeupEvent 4 100, NlmsgNew 1]\<rparr>)
   \<and> sent [PmWakeupEvent 4 100, NlmsgNew 1] = []
   \<and> tp_handler_times 3 sample_hdr no_memory_env \<lparr>touch_state = 1\<rparr> bound_state =
       Inr (bound_state\<lparr>lasttouchmode := 1, trace := [PmWakeupEvent 4 100, NlmsgNew 1]\<rparr>)"
proof -
  have once: "anc_opticalfp_tp_handler sample_hdr no_memory_env \<lparr>touch_state = 1\<rparr> bound_state =
       Inr (0, bound_state\<lparr>lasttouchmode := 1, trace := [PmWakeupEvent 4 100, NlmsgNew 1]\<rparr>)"
    by (simp add: anc_opticalfp_tp_handler_def netlink_send_message_to_user_def
        netlink_send_message_def bound_state_def bound_dev_def no_memory_env_def good_env_def
        sample_hdr_def sample_event_val_def Let_def emit_def now_def
        ANC_WAKELOCK_HOLD_TIME_def)
  have steady: "tp_handler_times 2 sample_hdr no_memory_env \<lparr>touch_state = 1\<rparr>
         (bound_state\<lparr>lasttouchmode := 1, trace := [PmWakeupEvent 4 100, NlmsgNew 1]\<rparr>) =
       Inr (bound_state\<lparr>lasttouchmode := 1, trace := [PmWakeupEvent 4 100, NlmsgNew 1]\<rparr>)"
    by (rule tp_handler_steady) simp
  have three: "Suc 2 = (3::nat)"
    by simp
  have "tp_handler_times (Suc 2) sample_hdr no_memory_env \<lparr>touch_state = 1\<rparr> bound_state =
       Inr (bound_state\<lparr>lasttouchmode := 1, trace := [PmWakeupEvent 4 100, NlmsgNew 1]\<rparr>)"
    by (simp only: tp_handler_times.simps once sum.case prod.case steady)
  then have "tp_handler_times 3 sample_hdr no_memory_env \<lparr>touch_state = 1\<rparr> bound_state =
       Inr (bound_state\<lparr>lasttouchmode := 1, trace := [PmWakeupEvent 4 100, NlmsgNew 1]\<rparr>)"
    unfolding three .
  with once show ?thesis
    by (simp add: bound_state_def)
qed

subsection \<open>Pin selection and reset\<close>

text \<open>
  C9. If no name of the pin-state table is a prefix of (or equal to) the requested
  name, \<open>select_pin_ctl\<close> returns \<open>-EINVAL\<close>, the driver's not-found result, and
  leaves the state as it was: the trace is unchanged, so \<open>pinctrl_select_state\<close> is
  not called.
\<close>

theorem select_pin_ctl_not_found:
  assumes "\<forall>n \<in> set pctl_names. \<not> prefix n nm"
  shows "select_pin_ctl ev nm s = (- EINVAL, s)"
  using assms
  by (simp add: select_pin_ctl_def pctl_names_def strncmp_prefix nul_free_pctl_names)

theorem select_pin_ctl_not_found_witness:
  "\<not> prefix ''anc_reset_reset'' ''anc_irq_active''
   \<and> \<not> prefix ''anc_reset_active'' ''anc_irq_active''
   \<and> select_pin_ctl good_env ''anc_irq_active'' bound_state = (- 22, bound_state)"
  using select_pin_ctl_not_found [of "''anc_irq_active''" good_env bound_state]
  by (simp add: pctl_names_def EINVAL_def)

text \<open>
  C4. Every call of \<open>anc_reset\<close> performs, under the mutex, exactly two pin-state
  selections, the first table entry and then the second, each followed by a delay of
  10 ms; the second selection is made whatever the first returned; the result is the
  bitwise or of the two results, so it is 0 only if both selections succeeded.
\<close>

theorem anc_reset_sequence:
  "anc_reset ev s =
     (pinctrl_select_state_rc ev (now s + 1) OR pinctrl_select_state_rc ev (now s + 3),
      s\<lparr>trace := trace s @
         [MutexLock,
          PinctrlSelectState (fingerprint_pinctrl (g_anc_data s))
                             (pinctrl_state (g_anc_data s) ! 0),
          Mdelay 10,
          PinctrlSelectState (fingerprint_pinctrl (g_anc_data s))
                             (pinctrl_state (g_anc_data s) ! 1),
          Mdelay 10,
          MutexUnlock]\<rparr>)
   \<and> (fst (anc_reset ev s) = 0) =
       (pinctrl_select_state_rc ev (now s + 1) = 0 \<and> pinctrl_select_state_rc ev (now s + 3) = 0)"
proof -
  have eq: "anc_reset ev s =
     (pinctrl_select_state_rc ev (now s + 1) OR pinctrl_select_state_rc ev (now s + 3),
      s\<lparr>trace := trace s @
         [MutexLock,
          PinctrlSelectState (fingerprint_pinctrl (g_anc_data s))
                             (pinctrl_state (g_anc_data s) ! 0),
          Mdelay 10,
          PinctrlSelectState (fingerprint_pinctrl (g_anc_data s))
                             (pinctrl_state (g_anc_data s) ! 1),
          Mdelay 10,
          MutexUnlock]\<rparr>)"
    by (simp add: anc_reset_def select_reset_reset select_reset_active now_emit
          g_anc_data_emit Let_def)
       (simp add: emit_def numeral_3_eq_3)
  show ?thesis
    unfolding eq by (simp add: or_eq_0_iff)
qed

subsection \<open>Display handler\<close>

text \<open>
  C5. On a device with a notification endpoint, a display-notifier invocation with
  the early-blank event (a code other than the on-screen-fingerprint event) and a
  blank code returns \<open>NOTIFY_OK\<close>, and: the blank code powerdown sets \<open>fb_black\<close> to 1
  and sends exactly one screen-off message if the message buffer of the send can be
  allocated, and none otherwise; the blank code unblank sets \<open>fb_black\<close> to 0 and
  sends exactly one screen-on message under the same condition, and none otherwise;
  any other blank code sends nothing and leaves \<open>fb_black\<close> as it was.
\<close>

theorem fb_early_blank:
  assumes "gp_netlink_sock s = Some k"
    and "MSM_DRM_EARLY_EVENT_BLANK h \<noteq> MSM_DRM_ONSCREENFINGERPRINT_EVENT h"
  shows "\<exists>s'. anc_fb_state_chg_callback h ev (MSM_DRM_EARLY_EVENT_BLANK h)
                 (Some \<lparr>data = Some blank\<rparr>) s = Inr (NOTIFY_OK, s')
          \<and> sent (trace s') =
              sent (trace s) @
                (if nlmsg_new_ok ev (now s) \<and> nlmsg_put_ok ev (now s + 1)
                 then (if blank = MSM_DRM_BLANK_POWERDOWN h
                       then [[of_int (event_val h ANC_NETLINK_EVENT_SCR_OFF)]]
                       else if blank = MSM_DRM_BLANK_UNBLANK h
                       then [[of_int (event_val h ANC_NETLINK_EVENT_SCR_ON)]]
                       else [])
                 else [])
          \<and> fb_black (g_anc_data s') =
              (if blank = MSM_DRM_BLANK_POWERDOWN h then 1
               else if blank = MSM_DRM_BLANK_UNBLANK h then 0
               else fb_black (g_anc_data s))"
proof -
  have sock: "gp_netlink_sock (set_fb_black v s) = Some k" for v
    using assms(1) by (simp add: set_fb_black_simps)
  have step: "\<exists>s'. (case netlink_send_message_to_user ev (Some [b]) (Suc 0) (set_fb_black v s) of
                      Inl f \<Rightarrow> Inl f | Inr (rc, s1) \<Rightarrow> Inr (NOTIFY_OK, s1)) = Inr (NOTIFY_OK, s')
          \<and> sent (trace s') =
              sent (trace s) @
                (if nlmsg_new_ok ev (now s) \<and> nlmsg_put_ok ev (now s + 1) then [[b]] else [])
          \<and> fb_black (g_anc_data s') = v" for b v
  proof -
    from send_one_byte [OF sock, of ev b v]
    obtain rc s2 where
      snd: "netlink_send_message_to_user ev (Some [b]) (Suc 0) (set_fb_black v s) = Inr (rc, s2)"
      and sent2: "sent (trace s2) =
          sent (trace (set_fb_black v s)) @
            (if nlmsg_new_ok ev (now (set_fb_black v s))
                \<and> nlmsg_put_ok ev (Suc (now (set_fb_black v s))) then [[b]] else [])"
      by blast
    have "fb_black (g_anc_data s2) = v"
      using fb_black_send [OF snd] by (simp add: set_fb_black_simps)
    with snd sent2 show ?thesis
      by (simp add: set_fb_black_simps)
  qed
  show ?thesis
  proof (cases "blank = MSM_DRM_BLANK_POWERDOWN h")
    case True
    have "anc_fb_state_chg_callback h ev (MSM_DRM_EARLY_EVENT_BLANK h)
            (Some \<lparr>data = Some blank\<rparr>) s =
          (case netlink_send_message_to_user ev
                  (Some [of_int (event_val h ANC_NETLINK_EVENT_SCR_OFF)]) (Suc 0)
                  (set_fb_black 1 s) of
             Inl f \<Rightarrow> Inl f | Inr (rc, s1) \<Rightarrow> Inr (NOTIFY_OK, s1))"
      using assms(2) True by (simp add: anc_fb_state_chg_callback_def)
    moreover from step [of "of_int (event_val h ANC_NETLINK_EVENT_SCR_OFF)" 1]
    obtain s' where
      "(case netlink_send_message_to_user ev
               (Some [of_int (event_val h ANC_NETLINK_EVENT_SCR_OFF)]) (Suc 0)
               (set_fb_black 1 s) of
          Inl f \<Rightarrow> Inl f | Inr (rc, s1) \<Rightarrow> Inr (NOTIFY_OK, s1)) = Inr (NOTIFY_OK, s')"
      and "sent (trace s') =
             sent (trace s) @
               (if nlmsg_new_ok ev (now s) \<and> nlmsg_put_ok ev (now s + 1)
                then [[of_int (event_val h ANC_NETLINK_EVENT_SCR_OFF)]] else [])"
      and "fb_black (g_anc_data s') = 1"
      by blast
    ultimately show ?thesis
      using True by (intro exI [of _ s']) simp
  next
    case False
    show ?thesis
    proof (cases "blank = MSM_DRM_BLANK_UNBLANK h")
      case True
      have "anc_fb_state_chg_callback h ev (MSM_DRM_EARLY_EVENT_BLANK h)
              (Some \<lparr>data = Some blank\<rparr>) s =
            (case netlink_send_message_to_user ev
                    (Some [of_int (event_val h ANC_NETLINK_EVENT_SCR_ON)]) (Suc 0)
                    (set_fb_black 0 s) of
               Inl f \<Rightarrow> Inl f | Inr (rc, s1) \<Rightarrow> Inr (NOTIFY_OK, s1))"
        using assms(2) True \<open>blank \<noteq> MSM_DRM_BLANK_POWERDOWN h\<close>
        by (simp add: anc_fb_state_chg_callback_def)
      moreover from step [of "of_int (event_val h ANC_NETLINK_EVENT_SCR_ON)" 0]
      obtain s' where
        "(case netlink_send_message_to_user ev
                 (Some [of_int (event_val h ANC_NETLINK_EVENT_SCR_ON)]) (Suc 0)
                 (set_fb_black 0 s) of
            Inl f \<Rightarrow> Inl f | Inr (rc, s1) \<Rightarrow> Inr (NOTIFY_OK, s1)) = Inr (NOTIFY_OK, s')"
        and "sent (trace s') =
               sent (trace s) @
                 (if nlmsg_new_ok ev (now s) \<and> nlmsg_put_ok ev (now s + 1)
                  then [[of_int (event_val h ANC_NETLINK_EVENT_SCR_ON)]] else [])"
        and "fb_black (g_anc_data s') = 0"
        by blast
      ultimately show ?thesis
        using True \<open>blank \<noteq> MSM_DRM_BLANK_POWERDOWN h\<close>
        by (intro exI [of _ s']) simp
    next
      case False
      then show ?thesis
        using assms(2) \<open>blank \<noteq> MSM_DRM_BLANK_POWERDOWN h\<close>
        by (simp add: anc_fb_state_chg_callback_def)
    qed
  qed
qed

theorem fb_early_blank_witness:
  "gp_netlink_sock bound_state = Some 7
   \<and> MSM_DRM_EARLY_EVENT_BLANK sample_hdr \<noteq> MSM_DRM_ONSCREENFINGERPRINT_EVENT sample_hdr
   \<and> anc_fb_state_chg_callback sample_hdr good_env 2 (Some \<lparr>data = Some 1\<rparr>) bound_state =
       Inr (1, bound_state\<lparr>g_anc_data := bound_dev\<lparr>fb_black := 1\<rparr>,
                 trace := [NlmsgNew 1, NlmsgPut 1, NetlinkUnicast 7 [2] 100]\<rparr>)"
proof -
  have sock: "gp_netlink_sock bound_state = Some 7"
    by (simp add: bound_state_def)
  have d: "MSM_DRM_EARLY_EVENT_BLANK sample_hdr \<noteq> MSM_DRM_ONSCREENFINGERPRINT_EVENT sample_hdr"
    by (simp add: sample_hdr_def)
  have run: "anc_fb_state_chg_callback sample_hdr good_env 2 (Some \<lparr>data = Some 1\<rparr>) bound_state =
       Inr (1, bound_state\<lparr>g_anc_data := bound_dev\<lparr>fb_black := 1\<rparr>,
                 trace := [NlmsgNew 1, NlmsgPut 1, NetlinkUnicast 7 [2] 100]\<rparr>)"
    by (simp add: anc_fb_state_chg_callback_def netlink_send_message_to_user_def
        netlink_send_message_def set_fb_black_def bound_state_def good_env_def sample_hdr_def
        sample_event_val_def Let_def emit_def now_def USER_PORT_def NOTIFY_OK_def)
  show ?thesis
    using fb_early_blank [OF sock d, of good_env 1] sock d
    unfolding run by auto
qed

text \<open>
  When \<open>nlmsg_new\<close> finds no memory, the blank code powerdown sets \<open>fb_black\<close> to 1 and
  sends no message.
\<close>

theorem fb_early_blank_no_memory_counterexample:
  "anc_fb_state_chg_callback sample_hdr no_memory_env (MSM_DRM_EARLY_EVENT_BLANK sample_hdr)
       (Some \<lparr>data = Some (MSM_DRM_BLANK_POWERDOWN sample_hdr)\<rparr>) bound_state =
     Inr (1, bound_state\<lparr>g_anc_data := bound_dev\<lparr>fb_black := 1\<rparr>, trace := [NlmsgNew 1]\<rparr>)
   \<and> sent [NlmsgNew 1] = []"
  by (simp add: anc_fb_state_chg_callback_def netlink_send_message_to_user_def
      netlink_send_message_def set_fb_black_def bound_state_def no_memory_env_def good_env_def
      sample_hdr_def sample_event_val_def Let_def emit_def now_def NOTIFY_OK_def)

text \<open>
  C10. On the on-screen-fingerprint event the handler reads the operational mode
  through \<open>evdata\<close> and \<open>evdata->data\<close> without testing either: with a null \<open>evdata\<close>,
  or with a null \<open>data\<close>, the read is a null dereference, for every header,
  environment and state; the early-blank branch tests both pointers first.
\<close>

theorem fb_onscreen_event_null_deref:
  "anc_fb_state_chg_callback h ev (MSM_DRM_ONSCREENFINGERPRINT_EVENT h) None s = Inl NullDeref
   \<and> anc_fb_state_chg_callback h ev (MSM_DRM_ONSCREENFINGERPRINT_EVENT h)
        (Some \<lparr>data = None\<rparr>) s = Inl NullDeref
   \<and> anc_fb_state_chg_callback sample_hdr good_env 0x10 None bound_state = Inl NullDeref"
  by (simp add: anc_fb_state_chg_callback_def sample_hdr_def)

subsection \<open>Notification channel\<close>

text \<open>
  C2. Written with the token \<open>touch_down\<close>, the attribute \<open>netlink_event\<close> sends the
  object representation of the enumeration variable: with an enumeration type of
  four bytes the payload is the four bytes 4, 0, 0, 0, not one byte.
\<close>

theorem forward_netlink_event_payload:
  "forward_netlink_event_set sample_hdr good_env ''touch_down'' 10 bound_state =
     Inr (0, bound_state\<lparr>trace :=
               [NlmsgNew 4, NlmsgPut 4, NetlinkUnicast 7 [4, 0, 0, 0] 100]\<rparr>)
   \<and> sent [NlmsgNew 4, NlmsgPut 4, NetlinkUnicast 7 [4, 0, 0, 0] 100] = [[4, 0, 0, 0]]"
proof -
  have k: "gp_netlink_sock bound_state = Some 7"
    by (simp add: bound_state_def)
  have a: "nlmsg_new_ok good_env (now bound_state)"
    and b: "nlmsg_put_ok good_env (Suc (now bound_state))"
    by (simp_all add: good_env_def)
  have c: "0 < sizeof_event_type sample_hdr" and d: "sizeof_event_type sample_hdr < 65536"
    and e: "event_val sample_hdr ANC_NETLINK_EVENT_TOUCH_DOWN
              \<noteq> event_val sample_hdr ANC_NETLINK_EVENT_INVALID"
    by (simp_all add: sample_hdr_def sample_event_val_def)
  have f: "obj_bytes 4 4 = [4, 0, 0, 0]"
    by (simp add: obj_bytes_def upt_rec)
  have "forward_netlink_event_set sample_hdr good_env ''touch_down'' 10 bound_state =
     Inr (0, bound_state\<lparr>trace :=
               [NlmsgNew 4, NlmsgPut 4, NetlinkUnicast 7 [4, 0, 0, 0] 100]\<rparr>)"
    unfolding forward_touch_down_bytes [OF k a b c d e]
    by (simp add: sample_hdr_def sample_event_val_def f good_env_def bound_state_def
        USER_PORT_def)
  then show ?thesis by simp
qed

text \<open>
  C3. After \<open>anc_netlink_exit\<close>, after an \<open>anc_netlink_init\<close> whose endpoint creation
  failed, and before any init, the endpoint handle is null. A send is then not
  rejected and is not a no-op: the send path does not test the handle, allocates its
  buffer and calls \<open>netlink_unicast\<close> with the null socket, a null dereference. So
  does a touch event with a changed state on such a state.
\<close>

theorem send_without_endpoint_faults:
  "gp_netlink_sock (anc_netlink_exit bound_state) = None
   \<and> netlink_send_message_to_user good_env (Some [4]) 1 (anc_netlink_exit bound_state) =
       Inl NullDeref
   \<and> anc_opticalfp_tp_handler sample_hdr good_env \<lparr>touch_state = 1\<rparr>
       (anc_netlink_exit bound_state) = Inl NullDeref
   \<and> gp_netlink_sock (snd (anc_netlink_init create_fails_env no_endpoint_state)) = None
   \<and> fst (anc_netlink_init create_fails_env no_endpoint_state) = - 12
   \<and> netlink_send_message_to_user create_fails_env (Some [4]) 1
       (snd (anc_netlink_init create_fails_env no_endpoint_state)) = Inl NullDeref
   \<and> netlink_send_message_to_user good_env (Some [4]) 1 no_endpoint_state = Inl NullDeref"
  by (simp add: netlink_send_message_to_user_def netlink_send_message_def anc_netlink_exit_def
      anc_netlink_init_def anc_opticalfp_tp_handler_def no_endpoint_state_def bound_state_def
      bound_dev_def create_fails_env_def good_env_def sample_hdr_def sample_event_val_def
      Let_def emit_def now_def ENOMEM_def)

subsection \<open>Power and locking\<close>

text \<open>
  C6. The command \<open>ANC_IOC_ENABLE_POWER\<close> runs the regulator operations of the
  enable sequence with no \<open>mutex_lock\<close> around them: its trace holds hardware
  operations outside the lock, whereas the attribute write \<open>device_power\<close> runs the
  same operations between \<open>mutex_lock\<close> and \<open>mutex_unlock\<close>.
\<close>

theorem ioctl_power_without_lock:
  "anc_ioctl sample_hdr good_env (ANC_IOC_ENABLE_POWER sample_hdr) bound_state =
     (0, bound_state\<lparr>g_anc_data := bound_dev\<lparr>vreg := [Some 5]\<rparr>,
           trace := [RegulatorGet ''ldo'', RegulatorCountVoltages 5,
                     RegulatorSetVoltage 5 3300000 3300000, RegulatorSetLoad 5 150000,
                     RegulatorEnable 5]\<rparr>)
   \<and> \<not> under_lock False
         (trace (snd (anc_ioctl sample_hdr good_env (ANC_IOC_ENABLE_POWER sample_hdr)
                        bound_state)))
   \<and> under_lock False (trace (snd (device_power_set good_env ''on'' 2 bound_state)))"
proof -
  have a: "anc_ioctl sample_hdr good_env (ANC_IOC_ENABLE_POWER sample_hdr) bound_state =
     (0, bound_state\<lparr>g_anc_data := bound_dev\<lparr>vreg := [Some 5]\<rparr>,
           trace := [RegulatorGet ''ldo'', RegulatorCountVoltages 5,
                     RegulatorSetVoltage 5 3300000 3300000, RegulatorSetLoad 5 150000,
                     RegulatorEnable 5]\<rparr>)"
    by (simp add: anc_ioctl_def IOC_TYPE_def sample_hdr_def anc_power_onoff_def
        vreg_setup_ldo vreg_setup_entry_def vreg_enable_seq_def vreg_conf_def good_env_def
        bound_state_def bound_dev_def set_vreg_def emit_def now_def Let_def)
  have b: "trace (snd (device_power_set good_env ''on'' 2 bound_state)) =
      [MutexLock, RegulatorGet ''ldo'', RegulatorCountVoltages 5,
       RegulatorSetVoltage 5 3300000 3300000, RegulatorSetLoad 5 150000,
       RegulatorEnable 5, MutexUnlock]"
    by (simp add: device_power_set_def strncmp_prefix_snd nul_free_tokens
        anc_power_onoff_def vreg_setup_ldo vreg_setup_entry_def vreg_enable_seq_def
        vreg_conf_def good_env_def bound_state_def bound_dev_def set_vreg_def emit_def
        now_def Let_def)
  show ?thesis
    unfolding a b by simp
qed

text \<open>
  C7. In regulator mode, power on with a \<open>regulator_set_voltage\<close> that fails leaves
  the table entry with the handle just acquired although \<open>regulator_enable\<close> was never
  called: the handle is non-null while the regulator is not enabled. A failing
  \<open>regulator_enable\<close>, in contrast, releases the handle and clears the entry.
\<close>

theorem power_on_set_voltage_failure:
  "anc_power_onoff set_voltage_fails_env 1 bound_state =
     bound_state\<lparr>g_anc_data := bound_dev\<lparr>vreg := [Some 5]\<rparr>,
                 trace := [RegulatorGet ''ldo'', RegulatorCountVoltages 5,
                           RegulatorSetVoltage 5 3300000 3300000]\<rparr>
   \<and> anc_power_onoff enable_fails_env 1 bound_state =
     bound_state\<lparr>g_anc_data := bound_dev\<lparr>vreg := [None]\<rparr>,
                 trace := [RegulatorGet ''ldo'', RegulatorCountVoltages 5,
                           RegulatorSetVoltage 5 3300000 3300000, RegulatorSetLoad 5 150000,
                           RegulatorEnable 5, RegulatorPut 5]\<rparr>"
  by (simp add: anc_power_onoff_def vreg_setup_ldo vreg_setup_entry_def vreg_enable_seq_def
      vreg_conf_def set_voltage_fails_env_def enable_fails_env_def good_env_def
      bound_state_def bound_dev_def set_vreg_def emit_def now_def Let_def)

subsection \<open>Module load\<close>

text \<open>
  C8. When the sensor-identification query returns neither \<open>FP_JIIOV_0302\<close> nor
  \<open>FP_JIIOV_0301\<close>, \<open>ancfp_init\<close> registers nothing and leaves the state, trace
  included, as it was; it returns the error \<open>-EINVAL\<close>.
\<close>

theorem ancfp_init_other_sensor:
  assumes "get_fpsensor_type_res ev (now s) \<noteq> FP_JIIOV_0302 h"
    and "get_fpsensor_type_res ev (now s) \<noteq> FP_JIIOV_0301 h"
  shows "ancfp_init h ev s = (- EINVAL, s)"
  using assms by (auto simp add: ancfp_init_def)

theorem ancfp_init_other_sensor_witness:
  "get_fpsensor_type_res other_sensor_env (now bound_state) \<noteq> FP_JIIOV_0302 sample_hdr
   \<and> get_fpsensor_type_res other_sensor_env (now bound_state) \<noteq> FP_JIIOV_0301 sample_hdr
   \<and> ancfp_init sample_hdr other_sensor_env bound_state = (- 22, bound_state)"
proof -
  have a: "get_fpsensor_type_res other_sensor_env (now bound_state) \<noteq> FP_JIIOV_0302 sample_hdr"
    and b: "get_fpsensor_type_res other_sensor_env (now bound_state) \<noteq> FP_JIIOV_0301 sample_hdr"
    by (simp_all add: other_sensor_env_def good_env_def sample_hdr_def)
  show ?thesis
    using ancfp_init_other_sensor [OF a b] a b by (simp add: EINVAL_def)
qed

text \<open>For a sensor of another vendor the value returned by module load is not 0.\<close>

theorem ancfp_init_success_counterexample:
  "get_fpsensor_type_res other_sensor_env (now bound_state) \<noteq> FP_JIIOV_0302 sample_hdr
   \<and> get_fpsensor_type_res other_sensor_env (now bound_state) \<noteq> FP_JIIOV_0301 sample_hdr
   \<and> fst (ancfp_init sample_hdr other_sensor_env bound_state) = - 22
   \<and> fst (ancfp_init sample_hdr other_sensor_env bound_state) \<noteq> 0"
  by (simp add: ancfp_init_def other_sensor_env_def good_env_def sample_hdr_def EINVAL_def)

end
